theory Spec2Isabelle
  imports Main "HOL-Library.Word" "HOL-Library.AList"
begin

section \<open>The retrying HTTP fetch of the utilities provider\<close>

text \<open>
  The development embeds \<^verbatim>\<open>internal/provider/http\<close>: the retry policy
  \<^verbatim>\<open>makeCustomRetryPolicy\<close> and the fetch operation \<^verbatim>\<open>modelV0.read\<close>.
  Go's \<^verbatim>\<open>string\<close> and \<^verbatim>\<open>[]byte\<close> are byte sequences; a HOL \<^typ>\<open>char\<close> is one
  byte, so a Go string is a \<^typ>\<open>string\<close> and a byte slice is a list of 8-bit words.
\<close>

subsection \<open>Errors\<close>

text \<open>
  Go errors as values. \<open>ContextError\<close> is what \<^verbatim>\<open>ctx.Err()\<close> returns
  (\<^verbatim>\<open>context.Canceled\<close>, \<^verbatim>\<open>context.DeadlineExceeded\<close>); \<open>UrlError msg timeout\<close> is a
  \<^verbatim>\<open>*url.Error\<close> with the answer of its \<^verbatim>\<open>Timeout()\<close> method; \<open>PlainError\<close> is
  an error made by \<^verbatim>\<open>fmt.Errorf\<close> without \<^verbatim>\<open>%w\<close>; \<open>Wrapped prefix e\<close> is
  \<^verbatim>\<open>fmt.Errorf(prefix + "%w", e)\<close>.
\<close>

datatype error =
    ContextError string
  | UrlError string bool
  | PlainError string
  | Wrapped string error

fun Error :: "error \<Rightarrow> string" where
  "Error (ContextError s) = s"
| "Error (UrlError s t) = s"
| "Error (PlainError s) = s"
| "Error (Wrapped p e) = p @ Error e"

text \<open>\<^verbatim>\<open>errors.As(err, &target)\<close> for a target of type \<^verbatim>\<open>*url.Error\<close>: the first
  \<^verbatim>\<open>*url.Error\<close> on the chain of wrapped errors, with its \<^verbatim>\<open>Timeout()\<close>.\<close>

fun As_UrlError :: "error \<Rightarrow> bool option" where
  "As_UrlError (UrlError s t) = Some t"
| "As_UrlError (Wrapped p e) = As_UrlError e"
| "As_UrlError (ContextError s) = None"
| "As_UrlError (PlainError s) = None"

subsection \<open>Responses and attempt outcomes\<close>

type_synonym byte = "8 word"

text \<open>An \<^verbatim>\<open>*http.Response\<close>: \<open>RespBody\<close> is what \<^verbatim>\<open>io.ReadAll(response.Body)\<close>
  yields, the bytes or a read error.\<close>

record Response =
  RespStatusCode :: int
  RespStatus :: string
  RespHeader :: "(string \<times> string list) list"
  RespBody :: "error + byte list"

text \<open>The pair \<^verbatim>\<open>(resp, err)\<close> that one round trip of the HTTP client hands to the
  retry policy: a transport-level error, or a response.\<close>

datatype outcome = Failed error | Responded Response

subsection \<open>The retry policy\<close>

text \<open>
  Modelled from the spec: \<^verbatim>\<open>retryablehttp.DefaultRetryPolicy\<close> belongs to the
  go-retryablehttp dependency, whose source is not part of the repository. The baseline
  stops with the context's error when the context is done; otherwise it retries on
  transport-level errors and on 5xx status codes except 501, and reports no error of its
  own. Which transport-level errors the baseline takes for recoverable is its own
  judgement and is left open: it is the parameter \<open>recoverable\<close>, and the baseline of
  the spec, which retries on any transport-level error, is the one that is always true.
  The second argument is the value of \<^verbatim>\<open>ctx.Err()\<close>.
\<close>

definition DefaultRetryPolicy ::
  "(error \<Rightarrow> bool) \<Rightarrow> error option \<Rightarrow> outcome \<Rightarrow> bool \<times> error option" where
  "DefaultRetryPolicy recoverable ctxErr out =
     (case ctxErr of
        Some e \<Rightarrow> (False, Some e)
      | None \<Rightarrow>
          (case out of
             Failed err \<Rightarrow> (recoverable err, None)
           | Responded resp \<Rightarrow>
               (500 \<le> RespStatusCode resp \<and> RespStatusCode resp \<le> 599
                  \<and> RespStatusCode resp \<noteq> 501, None)))"

text \<open>The loop over \<^verbatim>\<open>successStatusCodes\<close> of \<^verbatim>\<open>makeCustomRetryPolicy\<close>.\<close>

fun statusIn :: "int list \<Rightarrow> int \<Rightarrow> bool" where
  "statusIn [] s = False"
| "statusIn (code # codes) s = (if s = code then True else statusIn codes s)"

text \<open>\<^verbatim>\<open>makeCustomRetryPolicy(successStatusCodes)\<close>: the closure applied to the value
  of \<^verbatim>\<open>ctx.Err()\<close> and to the attempt's outcome, in the order of the source. The
  first argument is the baseline's judgement of transport-level errors.\<close>

definition makeCustomRetryPolicy ::
  "(error \<Rightarrow> bool) \<Rightarrow> int list \<Rightarrow> error option \<Rightarrow> outcome \<Rightarrow> bool \<times> error option" where
  "makeCustomRetryPolicy recoverable successStatusCodes ctxErr out =
     (case ctxErr of
        Some e \<Rightarrow> (False, Some e)
      | None \<Rightarrow>
          (let (shouldRetry, err2) = DefaultRetryPolicy recoverable ctxErr out in
           if \<not> shouldRetry \<and> err2 \<noteq> None then (False, err2)
           else
             (case out of
                Failed err \<Rightarrow> (True, None)
              | Responded resp \<Rightarrow>
                  if length successStatusCodes = 0 then (shouldRetry, err2)
                  else if statusIn successStatusCodes (RespStatusCode resp) then (False, None)
                  else (True, Some (PlainError (''unexpected HTTP status '' @ RespStatus resp))))))"

subsection \<open>Values of the plugin framework\<close>

text \<open>A \<^verbatim>\<open>types.String\<close>, \<^verbatim>\<open>types.Int64\<close>, \<^verbatim>\<open>types.Bool\<close>, \<^verbatim>\<open>types.List\<close>,
  \<^verbatim>\<open>types.Map\<close> or \<^verbatim>\<open>types.Object\<close>: null, unknown, or a known value. The
  \<^verbatim>\<open>Value...()\<close> accessors return the zero value of the Go type for null and unknown.\<close>

datatype 'a tfvalue = Null | Unknown | Value 'a

fun IsNull :: "'a tfvalue \<Rightarrow> bool" where
  "IsNull Null = True"
| "IsNull Unknown = False"
| "IsNull (Value v) = False"

fun IsUnknown :: "'a tfvalue \<Rightarrow> bool" where
  "IsUnknown Null = False"
| "IsUnknown Unknown = True"
| "IsUnknown (Value v) = False"

fun ValueString :: "string tfvalue \<Rightarrow> string" where
  "ValueString (Value s) = s"
| "ValueString Null = []"
| "ValueString Unknown = []"

fun ValueInt64 :: "int tfvalue \<Rightarrow> int" where
  "ValueInt64 (Value n) = n"
| "ValueInt64 Null = 0"
| "ValueInt64 Unknown = 0"

fun ValueBool :: "bool tfvalue \<Rightarrow> bool" where
  "ValueBool (Value b) = b"
| "ValueBool Null = False"
| "ValueBool Unknown = False"

text \<open>\<^verbatim>\<open>Elements()\<close> of a \<^verbatim>\<open>types.Map\<close>, in the order the \<^verbatim>\<open>range\<close> loop visits
  them.\<close>

fun Elements :: "'a list tfvalue \<Rightarrow> 'a list" where
  "Elements (Value l) = l"
| "Elements Null = []"
| "Elements Unknown = []"

subsection \<open>Diagnostics\<close>

datatype diagnostic = ErrorDiagnostic string string | WarningDiagnostic string string

fun isError :: "diagnostic \<Rightarrow> bool" where
  "isError (ErrorDiagnostic summary detail) = True"
| "isError (WarningDiagnostic summary detail) = False"

definition HasError :: "diagnostic list \<Rightarrow> bool" where
  "HasError diagnostics = list_ex isError diagnostics"

text \<open>\<^verbatim>\<open>diagnostics.Append(in...)\<close> of the framework skips a diagnostic that the
  collection already contains; \<^verbatim>\<open>AddError\<close> and \<^verbatim>\<open>AddWarning\<close> append one
  diagnostic.\<close>

fun Append :: "diagnostic list \<Rightarrow> diagnostic list \<Rightarrow> diagnostic list" where
  "Append diagnostics [] = diagnostics"
| "Append diagnostics (d # ds) =
     (if d \<in> set diagnostics then Append diagnostics ds else Append (diagnostics @ [d]) ds)"

definition AddError :: "diagnostic list \<Rightarrow> string \<Rightarrow> string \<Rightarrow> diagnostic list" where
  "AddError diagnostics summary detail = Append diagnostics [ErrorDiagnostic summary detail]"

definition AddWarning :: "diagnostic list \<Rightarrow> string \<Rightarrow> string \<Rightarrow> diagnostic list" where
  "AddWarning diagnostics summary detail = Append diagnostics [WarningDiagnostic summary detail]"

subsection \<open>The resource model\<close>

record retryModel =
  Attempts :: "int tfvalue"
  MinDelay :: "int tfvalue"
  MaxDelay :: "int tfvalue"

record modelV0 =
  ID :: "string tfvalue"
  URL :: "string tfvalue"
  Method :: "string tfvalue"
  RequestHeaders :: "(string \<times> string tfvalue) list tfvalue"
  RequestBody :: "string tfvalue"
  RequestTimeout :: "int tfvalue"
  Retry :: "retryModel tfvalue"
  ResponseHeaders :: "(string \<times> string) list tfvalue"
  CaCertificate :: "string tfvalue"
  ClientCert :: "string tfvalue"
  ClientKey :: "string tfvalue"
  Insecure :: "bool tfvalue"
  ResponseBody :: "string tfvalue"
  Body :: "string tfvalue"
  ResponseBodyBase64 :: "string tfvalue"
  StatusCode :: "int tfvalue"
  SuccessStatusCodes :: "int list tfvalue"

subsection \<open>Transport, client and request\<close>

text \<open>A \<^verbatim>\<open>tls.Certificate\<close> made from a certificate and a key in PEM; a
  \<^verbatim>\<open>tls.Config\<close> with the three fields \<^verbatim>\<open>read\<close> writes (\<open>RootCAs\<close> is the PEM
  text the pool was filled from); an \<^verbatim>\<open>http.Transport\<close>.\<close>

datatype Certificate = Certificate string string

record tlsConfig =
  InsecureSkipVerify :: bool
  RootCAs :: "string option"
  Certificates :: "Certificate list"

datatype ProxyFunc = ProxyOfTransport | ProxyFromEnvironment

record Transport =
  Proxy :: ProxyFunc
  TLSClientConfig :: "tlsConfig option"

text \<open>The \<^verbatim>\<open>retryablehttp.Client\<close>: the transport and the timeout of its
  \<^verbatim>\<open>HTTPClient\<close>, the waits (in nanoseconds, as \<^verbatim>\<open>time.Duration\<close>), the retry
  bound and the policy.\<close>

record Client =
  HTTPClientTransport :: Transport
  HTTPClientTimeout :: int
  RetryWaitMin :: int
  RetryWaitMax :: int
  RetryMax :: int
  CheckRetry :: "error option \<Rightarrow> outcome \<Rightarrow> bool \<times> error option"

record Request =
  ReqMethod :: string
  ReqURL :: string
  ReqHost :: string
  ReqHeader :: "(string \<times> string) list"
  ReqBody :: "string option"

text \<open>The calling context as the fetch sees it: \<open>Err ctx i\<close> is the value of
  \<^verbatim>\<open>ctx.Err()\<close> when the retry policy judges attempt \<open>i\<close> (counted from 0), and
  \<open>Done ctx i\<close> is the context's error if it is cancelled during the backoff wait that
  follows attempt \<open>i\<close>.\<close>

record Context =
  Err :: "nat \<Rightarrow> error option"
  Done :: "nat \<Rightarrow> error option"

text \<open>
  What the fetch consumes from outside the repository, as the answers it gets:
  the process-wide default transport (\<open>None\<close> when \<^verbatim>\<open>http.DefaultTransport\<close> is not an
  \<^verbatim>\<open>*http.Transport\<close>), the parsers of \<^verbatim>\<open>crypto/x509\<close> and \<^verbatim>\<open>crypto/tls\<close>,
  the conversions of the plugin framework with the diagnostics they return, the
  constructors of the request, one round trip of the HTTP client for attempt \<open>i\<close>,
  the baseline policy's judgement of which transport-level errors are recoverable, and
  the text of a URL and of a duration in messages.
\<close>

record env =
  DefaultTransport :: "Transport option"
  AppendCertsFromPEM :: "string \<Rightarrow> bool"
  X509KeyPair :: "string \<Rightarrow> string \<Rightarrow> error option"
  ObjectAs :: "retryModel \<Rightarrow> diagnostic list \<times> retryModel"
  ElementsAs :: "int list \<Rightarrow> diagnostic list \<times> int list"
  NewRequestWithContext :: "string \<Rightarrow> string \<Rightarrow> error option"
  URLHost :: "string \<Rightarrow> string"
  SetBody :: "string \<Rightarrow> error option"
  ValueAs :: "string tfvalue \<Rightarrow> diagnostic list \<times> string"
  CanonicalHeaderKey :: "string \<Rightarrow> string"
  RoundTrip :: "Client \<Rightarrow> Request \<Rightarrow> nat \<Rightarrow> outcome"
  RecoverableError :: "error \<Rightarrow> bool"
  redactURL :: "string \<Rightarrow> string"
  DurationString :: "int \<Rightarrow> string"
  MapValueFrom :: "(string \<times> string) list \<Rightarrow> (string \<times> string) list tfvalue \<times> diagnostic list"

subsection \<open>Bytes, strings and encodings\<close>

text \<open>\<^verbatim>\<open>string(bytes)\<close> and \<^verbatim>\<open>[]byte(s)\<close>: the same bytes, one by one.\<close>

definition string_of_bytes :: "byte list \<Rightarrow> string" where
  "string_of_bytes bytes = map (\<lambda>b. char_of (unat b)) bytes"

definition bytes_of_string :: "string \<Rightarrow> byte list" where
  "bytes_of_string s = map (\<lambda>c. of_nat (of_char c)) s"

text \<open>\<^verbatim>\<open>strings.Join(elems, sep)\<close>.\<close>

fun Join :: "string list \<Rightarrow> string \<Rightarrow> string" where
  "Join [] sep = []"
| "Join [x] sep = x"
| "Join (x # y # rest) sep = x @ sep @ Join (y # rest) sep"

text \<open>\<^verbatim>\<open>strings.ToLower\<close> on the ASCII letters, which is all that the comparison
  with \<^verbatim>\<open>"host"\<close> looks at.\<close>

definition lowerChar :: "char \<Rightarrow> char" where
  "lowerChar c =
     (let n = (of_char c :: nat) in if 65 \<le> n \<and> n \<le> 90 then char_of (n + 32) else c)"

definition ToLower :: "string \<Rightarrow> string" where
  "ToLower s = map lowerChar s"

text \<open>A natural number in decimal, as \<^verbatim>\<open>%d\<close> prints it.\<close>

definition digit :: "nat \<Rightarrow> char" where
  "digit n = ''0123456789'' ! n"

function itoa :: "nat \<Rightarrow> string" where
  "itoa n = (if n < 10 then [digit n] else itoa (n div 10) @ [digit (n mod 10)])"
  by pat_completeness auto
termination
  by (relation "measure id") auto

declare itoa.simps [simp del]

text \<open>
  Modelled from the spec: \<^verbatim>\<open>base64.StdEncoding\<close> belongs to Go's standard library,
  not to the repository. This is the standard base64 of RFC 4648 with padding: three
  bytes make four characters of the alphabet, a last group of one or two bytes is padded
  with \<^verbatim>\<open>=\<close>. \<open>DecodeString\<close> is the standard decoder, \<open>None\<close> on malformed input.
\<close>

definition encodeStd :: string where
  "encodeStd = ''ABCDEFGHIJKLMNOPQRSTUVWXYZabcdefghijklmnopqrstuvwxyz0123456789+/''"

definition padChar :: char where
  "padChar = CHR ''=''"

definition encodeSextet :: "nat \<Rightarrow> char" where
  "encodeSextet v = encodeStd ! (v mod 64)"

fun EncodeToString :: "byte list \<Rightarrow> string" where
  "EncodeToString [] = []"
| "EncodeToString [a] =
     (let val = unat a * 65536 in
      [encodeSextet (val div 262144), encodeSextet (val div 4096), padChar, padChar])"
| "EncodeToString [a, b] =
     (let val = unat a * 65536 + unat b * 256 in
      [encodeSextet (val div 262144), encodeSextet (val div 4096),
       encodeSextet (val div 64), padChar])"
| "EncodeToString (a # b # c # rest) =
     (let val = unat a * 65536 + unat b * 256 + unat c in
      [encodeSextet (val div 262144), encodeSextet (val div 4096),
       encodeSextet (val div 64), encodeSextet val]) @ EncodeToString rest"

fun indexOf :: "char list \<Rightarrow> char \<Rightarrow> nat option" where
  "indexOf [] c = None"
| "indexOf (x # xs) c = (if x = c then Some 0 else map_option Suc (indexOf xs c))"

definition decodeSextet :: "char \<Rightarrow> nat option" where
  "decodeSextet c = indexOf encodeStd c"

text \<open>One group of four characters: three bytes, or two or one before padding.\<close>

definition decodeQuantum :: "char \<Rightarrow> char \<Rightarrow> char \<Rightarrow> char \<Rightarrow> bool \<Rightarrow> byte list option" where
  "decodeQuantum c0 c1 c2 c3 final =
     (case (decodeSextet c0, decodeSextet c1) of
        (Some s0, Some s1) \<Rightarrow>
          (if final \<and> c2 = padChar \<and> c3 = padChar then
             Some [of_nat ((s0 * 262144 + s1 * 4096) div 65536)]
           else
             (case decodeSextet c2 of
                None \<Rightarrow> None
              | Some s2 \<Rightarrow>
                  (if final \<and> c3 = padChar then
                     (let val = s0 * 262144 + s1 * 4096 + s2 * 64 in
                      Some [of_nat (val div 65536), of_nat (val div 256)])
                   else
                     (case decodeSextet c3 of
                        None \<Rightarrow> None
                      | Some s3 \<Rightarrow>
                          (let val = s0 * 262144 + s1 * 4096 + s2 * 64 + s3 in
                           Some [of_nat (val div 65536), of_nat (val div 256), of_nat val])))))
      | _ \<Rightarrow> None)"

fun DecodeString :: "string \<Rightarrow> byte list option" where
  "DecodeString [] = Some []"
| "DecodeString [c0, c1, c2, c3] = decodeQuantum c0 c1 c2 c3 True"
| "DecodeString (c0 # c1 # c2 # c3 # rest) =
     (case decodeQuantum c0 c1 c2 c3 False of
        None \<Rightarrow> None
      | Some bytes \<Rightarrow> map_option ((@) bytes) (DecodeString rest))"
| "DecodeString s = None"

text \<open>
  Modelled from the spec: \<^verbatim>\<open>utf8.Valid\<close> belongs to Go's standard library. The bytes
  are valid UTF-8 when they are a sequence of well-formed encodings (RFC 3629): no
  overlong forms, no surrogates, nothing above U+10FFFF.
\<close>

definition inRange :: "nat \<Rightarrow> nat \<Rightarrow> byte \<Rightarrow> bool" where
  "inRange lo hi b = (lo \<le> unat b \<and> unat b \<le> hi)"

fun Valid :: "byte list \<Rightarrow> bool" where
  "Valid [] = True"
| "Valid [b0] = (unat b0 < 128)"
| "Valid [b0, b1] =
     (if unat b0 < 128 then Valid [b1]
      else inRange 194 223 b0 \<and> inRange 128 191 b1)"
| "Valid [b0, b1, b2] =
     (if unat b0 < 128 then Valid [b1, b2]
      else if inRange 194 223 b0 then inRange 128 191 b1 \<and> Valid [b2]
      else inRange 224 239 b0
         \<and> inRange (if unat b0 = 224 then 160 else 128) (if unat b0 = 237 then 159 else 191) b1
         \<and> inRange 128 191 b2)"
| "Valid (b0 # b1 # b2 # b3 # rest) =
     (if unat b0 < 128 then Valid (b1 # b2 # b3 # rest)
      else if inRange 194 223 b0 then inRange 128 191 b1 \<and> Valid (b2 # b3 # rest)
      else if inRange 224 239 b0 then
        inRange (if unat b0 = 224 then 160 else 128) (if unat b0 = 237 then 159 else 191) b1
         \<and> inRange 128 191 b2 \<and> Valid (b3 # rest)
      else inRange 240 244 b0
         \<and> inRange (if unat b0 = 240 then 144 else 128) (if unat b0 = 244 then 143 else 191) b1
         \<and> inRange 128 191 b2 \<and> inRange 128 191 b3 \<and> Valid rest)"

subsection \<open>The retrying client\<close>

text \<open>\<^verbatim>\<open>retryablehttp.NewClient()\<close> with the transport that \<^verbatim>\<open>read\<close> installs in
  its \<^verbatim>\<open>HTTPClient\<close> right away: waits of 1 s and 30 s, four retries, the default
  policy, no timeout.\<close>

definition NewClient :: "(error \<Rightarrow> bool) \<Rightarrow> Transport \<Rightarrow> Client" where
  "NewClient recoverable tr =
     \<lparr>HTTPClientTransport = tr, HTTPClientTimeout = 0, RetryWaitMin = 1000000000,
      RetryWaitMax = 30000000000, RetryMax = 4, CheckRetry = DefaultRetryPolicy recoverable\<rparr>"

text \<open>\<^verbatim>\<open>time.Duration(v) * time.Millisecond\<close> in 64-bit signed arithmetic.\<close>

definition Milliseconds :: "int \<Rightarrow> int" where
  "Milliseconds v = sint (word_of_int (v * 1000000) :: 64 word)"

text \<open>
  Modelled from the spec: \<^verbatim>\<open>retryablehttp.Client.Do\<close> belongs to the go-retryablehttp
  dependency. After every attempt the policy is asked. When it says retry and retries
  remain (attempt \<open>i\<close>, counted from 0, has \<open>RetryMax - i\<close> of them left), the client
  waits, and a context cancelled during the wait ends the call with the context's
  error. Otherwise the loop ends: a response that the policy accepted without an error
  is returned; anything else is an error that says after how many attempts the client
  gave up and wraps the policy's error or else the transport's. The second component
  is the number of attempts made.
\<close>

definition givingUp :: "env \<Rightarrow> Request \<Rightarrow> nat \<Rightarrow> string" where
  "givingUp E req attempt =
     ReqMethod req @ '' '' @ redactURL E (ReqURL req) @ '' giving up after '' @ itoa attempt
       @ '' attempt(s)''"

definition Do_result :: "env \<Rightarrow> Request \<Rightarrow> outcome \<Rightarrow> bool \<times> error option \<Rightarrow> nat \<Rightarrow> error + Response" where
  "Do_result E req out decision attempt =
     (case (out, decision) of
        (Responded resp, (False, None)) \<Rightarrow> Inr resp
      | (_, (_, Some checkErr)) \<Rightarrow> Inl (Wrapped (givingUp E req attempt @ '': '') checkErr)
      | (Failed doErr, (_, None)) \<Rightarrow> Inl (Wrapped (givingUp E req attempt @ '': '') doErr)
      | (Responded resp, (True, None)) \<Rightarrow> Inl (PlainError (givingUp E req attempt)))"

function Do_loop :: "env \<Rightarrow> Context \<Rightarrow> Client \<Rightarrow> Request \<Rightarrow> nat \<Rightarrow> (error + Response) \<times> nat" where
  "Do_loop E ctx c req i =
     (if fst (CheckRetry c (Err ctx i) (RoundTrip E c req i)) \<and> 0 < RetryMax c - int i
      then (case Done ctx i of
              Some e \<Rightarrow> (Inl e, Suc i)
            | None \<Rightarrow> Do_loop E ctx c req (Suc i))
      else (Do_result E req (RoundTrip E c req i)
              (CheckRetry c (Err ctx i) (RoundTrip E c req i)) (Suc i), Suc i))"
  by pat_completeness auto
termination
  by (relation "measure (\<lambda>(E, ctx, c, req, i). nat (RetryMax c - int i))") auto

declare Do_loop.simps [simp del]

definition Do :: "env \<Rightarrow> Context \<Rightarrow> Client \<Rightarrow> Request \<Rightarrow> (error + Response) \<times> nat" where
  "Do E ctx c req = Do_loop E ctx c req 0"

subsection \<open>The fetch operation\<close>

text \<open>Lines 146 to 203 of \<^verbatim>\<open>read\<close>: the cloned transport with its TLS
  configuration, or the summary and detail of the error that ends the fetch.\<close>

definition zeroConfig :: tlsConfig where
  "zeroConfig = \<lparr>InsecureSkipVerify = False, RootCAs = None, Certificates = []\<rparr>"

definition read_transport :: "env \<Rightarrow> modelV0 \<Rightarrow> (string \<times> string) + Transport" where
  "read_transport E m =
     (case DefaultTransport E of
        None \<Rightarrow>
          Inl (''Error configuring http transport'',
               ''Error http: Can't configure http transport.'')
      | Some tr \<Rightarrow>
          (let cfg0 = (case TLSClientConfig tr of None \<Rightarrow> zeroConfig | Some cfg \<Rightarrow> cfg);
               cfg1 = (if \<not> IsNull (Insecure m)
                       then cfg0\<lparr>InsecureSkipVerify := ValueBool (Insecure m)\<rparr> else cfg0)
           in
           if \<not> IsNull (CaCertificate m)
                \<and> \<not> AppendCertsFromPEM E (ValueString (CaCertificate m))
           then
             Inl (''Error configuring TLS client'',
                  ''Error tls: Can't add the CA certificate to certificate pool. Only PEM encoded certificates are supported.'')
           else
             (let cfg2 = (if \<not> IsNull (CaCertificate m)
                          then cfg1\<lparr>RootCAs := Some (ValueString (CaCertificate m))\<rparr>
                          else cfg1)
              in
              if \<not> IsNull (ClientCert m) \<and> \<not> IsNull (ClientKey m) then
                (case X509KeyPair E (ValueString (ClientCert m)) (ValueString (ClientKey m)) of
                   Some err \<Rightarrow>
                     Inl (''error creating x509 key pair'',
                          ''error creating x509 key pair from provided pem blocks'' @ [CHR 0x0A, CHR 0x0A]
                            @ ''Error: '' @ Error err)
                 | None \<Rightarrow>
                     Inr (tr\<lparr>Proxy := ProxyFromEnvironment,
                             TLSClientConfig := Some (cfg2\<lparr>Certificates :=
                               [Certificate (ValueString (ClientCert m)) (ValueString (ClientKey m))]\<rparr>)\<rparr>))
              else Inr (tr\<lparr>Proxy := ProxyFromEnvironment, TLSClientConfig := Some cfg2\<rparr>))))"

text \<open>Lines 205 to 242: the retry block, the client, the timeout and the success
  status codes. The result is the diagnostics at an early return, or the client, the
  timeout and the diagnostics so far.\<close>

definition zeroRetry :: retryModel where
  "zeroRetry = \<lparr>Attempts = Null, MinDelay = Null, MaxDelay = Null\<rparr>"

definition read_retryClient ::
  "env \<Rightarrow> modelV0 \<Rightarrow> Transport \<Rightarrow> diagnostic list \<Rightarrow> diagnostic list + (Client \<times> int \<times> diagnostic list)" where
  "read_retryClient E m clonedTr diagnostics =
     (let (diags1, retry) = (case Retry m of Value obj \<Rightarrow> ObjectAs E obj | _ \<Rightarrow> ([], zeroRetry));
          d1 = Append diagnostics diags1
      in
      if \<not> IsNull (Retry m) \<and> \<not> IsUnknown (Retry m) \<and> HasError d1 then Inl d1
      else
        (let c0 = NewClient (RecoverableError E) clonedTr;
             timeout = (if ValueInt64 (RequestTimeout m) > 0
                        then Milliseconds (ValueInt64 (RequestTimeout m)) else 0);
             c1 = (if ValueInt64 (RequestTimeout m) > 0
                   then c0\<lparr>HTTPClientTimeout := timeout\<rparr> else c0);
             c2 = c1\<lparr>RetryMax := ValueInt64 (Attempts retry)\<rparr>;
             (diags2, successStatusCodes) =
               (case SuccessStatusCodes m of Value l \<Rightarrow> ElementsAs E l | _ \<Rightarrow> ([], []));
             d2 = Append d1 diags2;
             c3 = (if \<not> IsNull (MinDelay retry) \<and> \<not> IsUnknown (MinDelay retry)
                      \<and> ValueInt64 (MinDelay retry) \<ge> 0
                   then c2\<lparr>RetryWaitMin := Milliseconds (ValueInt64 (MinDelay retry))\<rparr> else c2);
             c4 = (if \<not> IsNull (MaxDelay retry) \<and> \<not> IsUnknown (MaxDelay retry)
                      \<and> ValueInt64 (MaxDelay retry) \<ge> 0
                   then c3\<lparr>RetryWaitMax := Milliseconds (ValueInt64 (MaxDelay retry))\<rparr> else c3)
         in Inr (c4\<lparr>CheckRetry := makeCustomRetryPolicy (RecoverableError E) successStatusCodes\<rparr>,
                 timeout, d2)))"

text \<open>Lines 266 to 278: the loop over the request headers.\<close>

fun read_headers ::
  "env \<Rightarrow> (string \<times> string tfvalue) list \<Rightarrow> Request \<Rightarrow> diagnostic list \<Rightarrow> diagnostic list + (Request \<times> diagnostic list)" where
  "read_headers E [] request diagnostics = Inr (request, diagnostics)"
| "read_headers E ((name, v) # rest) request diagnostics =
     (let (diags, header) = ValueAs E v;
          d = Append diagnostics diags
      in
      if HasError d then Inl d
      else
        read_headers E rest
          (request\<lparr>ReqHeader := AList.update (CanonicalHeaderKey E name) header (ReqHeader request),
                   ReqHost := (if ToLower name = ''host'' then header else ReqHost request)\<rparr>)
          d)"

text \<open>Lines 138 to 144 and 243 to 278: the request.\<close>

definition read_request ::
  "env \<Rightarrow> modelV0 \<Rightarrow> diagnostic list \<Rightarrow> diagnostic list + (Request \<times> diagnostic list)" where
  "read_request E m diagnostics =
     (let requestURL = ValueString (URL m);
          method = (if ValueString (Method m) = [] then ''GET'' else ValueString (Method m))
      in
      case NewRequestWithContext E method requestURL of
        Some err \<Rightarrow>
          Inl (AddError diagnostics ''Error creating request''
                 (''Error creating request: '' @ Error err))
      | None \<Rightarrow>
          (let request = \<lparr>ReqMethod = method, ReqURL = requestURL, ReqHost = URLHost E requestURL,
                          ReqHeader = [], ReqBody = None\<rparr>
           in
           if \<not> IsNull (RequestBody m) then
             (case SetBody E (ValueString (RequestBody m)) of
                Some err \<Rightarrow>
                  Inl (AddError diagnostics ''Error Setting Request Body''
                         (''An unexpected error occurred while setting the request body: '' @ Error err))
              | None \<Rightarrow>
                  read_headers E (Elements (RequestHeaders m))
                    (request\<lparr>ReqBody := Some (ValueString (RequestBody m))\<rparr>) diagnostics)
           else read_headers E (Elements (RequestHeaders m)) request diagnostics))"

text \<open>Lines 281 to 304: the detail of the diagnostic for a failed request.\<close>

definition requestErrorDetail :: "env \<Rightarrow> int \<Rightarrow> error \<Rightarrow> string" where
  "requestErrorDetail E timeout err =
     (if As_UrlError err = Some True then
        (if timeout > 0
         then ''request exceeded the specified timeout: '' @ DurationString E timeout
                @ '', err: '' @ Error err
         else ''timeout error: '' @ Error err)
      else ''Error making request: '' @ Error err)"

text \<open>Lines 339 to 344: the assignments to the fields of the model.\<close>

definition assignResult ::
  "modelV0 \<Rightarrow> (string \<times> string) list tfvalue \<Rightarrow> string \<Rightarrow> string \<Rightarrow> int \<Rightarrow> modelV0" where
  "assignResult m respHeadersState responseBody responseBodyBase64Std statusCode =
     m\<lparr>ID := Value (ValueString (URL m)),
       ResponseHeaders := respHeadersState,
       ResponseBody := Value responseBody,
       Body := Value responseBody,
       ResponseBodyBase64 := Value responseBodyBase64Std,
       StatusCode := Value statusCode\<rparr>"

text \<open>Lines 317 to 322: the warning for a body that is not UTF-8.\<close>

definition read_utf8 :: "diagnostic list \<Rightarrow> byte list \<Rightarrow> diagnostic list" where
  "read_utf8 diagnostics bytes =
     (if \<not> Valid bytes
      then AddWarning diagnostics ''Response body is not recognized as UTF-8''
             ''Terraform may not properly handle the response_body if the contents are binary.''
      else diagnostics)"

text \<open>Lines 306 to 337: from the response to the fields of the model.\<close>

definition read_result ::
  "env \<Rightarrow> modelV0 \<Rightarrow> Response \<Rightarrow> diagnostic list \<Rightarrow> modelV0 \<times> diagnostic list" where
  "read_result E m response diagnostics =
     (case RespBody response of
        Inl err \<Rightarrow>
          (m, AddError diagnostics ''Error reading response body''
                (''Error reading response body: '' @ Error err))
      | Inr bytes \<Rightarrow>
          (let d1 = read_utf8 diagnostics bytes;
               responseBody = string_of_bytes bytes;
               responseBodyBase64Std = EncodeToString bytes;
               responseHeaders = map (\<lambda>(k, v). (k, Join v '', '')) (RespHeader response);
               (respHeadersState, diags) = MapValueFrom E responseHeaders;
               d2 = Append d1 diags
           in
           if HasError d2 then (m, d2)
           else
             (assignResult m respHeadersState responseBody responseBodyBase64Std
                (RespStatusCode response), d2)))"

text \<open>\<^verbatim>\<open>modelV0.read\<close>: the model and the diagnostics after the call, and the number
  of HTTP attempts made.\<close>

definition read :: "env \<Rightarrow> Context \<Rightarrow> modelV0 \<Rightarrow> diagnostic list \<Rightarrow> modelV0 \<times> diagnostic list \<times> nat" where
  "read E ctx m diagnostics =
     (case read_transport E m of
        Inl (summary, detail) \<Rightarrow> (m, AddError diagnostics summary detail, 0)
      | Inr clonedTr \<Rightarrow>
          (case read_retryClient E m clonedTr diagnostics of
             Inl d \<Rightarrow> (m, d, 0)
           | Inr (retryClient, timeout, d1) \<Rightarrow>
               (case read_request E m d1 of
                  Inl d \<Rightarrow> (m, d, 0)
                | Inr (request, d2) \<Rightarrow>
                    (case Do E ctx retryClient request of
                       (Inl err, n) \<Rightarrow>
                         (m, AddError d2 ''Error making request'' (requestErrorDetail E timeout err), n)
                     | (Inr response, n) \<Rightarrow>
                         (case read_result E m response d2 of (m', d3) \<Rightarrow> (m', d3, n))))))"

subsection \<open>A concrete environment\<close>

text \<open>An environment in which every collaborator succeeds, the baseline takes every
  transport-level error for recoverable and attempt \<open>i\<close> of the HTTP client gets
  \<open>server i\<close>; a context that is never cancelled; a response with a status
  and a body; a model with a URL, a retry block and success status codes. The theorems
  below are instantiated on them.\<close>

definition plainTransport :: Transport where
  "plainTransport = \<lparr>Proxy = ProxyOfTransport, TLSClientConfig = None\<rparr>"

definition trusting :: "error \<Rightarrow> bool" where
  "trusting err = True"

definition serverEnv :: "(nat \<Rightarrow> outcome) \<Rightarrow> env" where
  "serverEnv server =
     \<lparr>DefaultTransport = Some plainTransport,
      AppendCertsFromPEM = (\<lambda>pem. take 10 pem = ''-----BEGIN''),
      X509KeyPair = (\<lambda>cert key. None),
      ObjectAs = (\<lambda>obj. ([], obj)),
      ElementsAs = (\<lambda>l. ([], l)),
      NewRequestWithContext = (\<lambda>method url. None),
      URLHost = (\<lambda>url. url),
      SetBody = (\<lambda>body. None),
      ValueAs = (\<lambda>v. ([], ValueString v)),
      CanonicalHeaderKey = (\<lambda>name. name),
      RoundTrip = (\<lambda>c req i. server i),
      RecoverableError = trusting,
      redactURL = (\<lambda>url. url),
      DurationString = (\<lambda>d. itoa (nat d) @ ''ns''),
      MapValueFrom = (\<lambda>headers. (Value headers, []))\<rparr>"

definition constantServer :: "outcome \<Rightarrow> nat \<Rightarrow> outcome" where
  "constantServer out i = out"

definition never :: "nat \<Rightarrow> error option" where
  "never i = None"

definition liveContext :: Context where
  "liveContext = \<lparr>Err = never, Done = never\<rparr>"

definition statusResponse :: "int \<Rightarrow> string \<Rightarrow> byte list \<Rightarrow> Response" where
  "statusResponse code status bytes =
     \<lparr>RespStatusCode = code, RespStatus = status, RespHeader = [], RespBody = Inr bytes\<rparr>"

definition exampleModel :: "int tfvalue \<Rightarrow> int list tfvalue \<Rightarrow> modelV0" where
  "exampleModel attempts codes =
     \<lparr>ID = Null, URL = Value ''http://example.test/'', Method = Null, RequestHeaders = Null,
      RequestBody = Null, RequestTimeout = Null,
      Retry = Value \<lparr>Attempts = attempts, MinDelay = Null, MaxDelay = Null\<rparr>,
      ResponseHeaders = Null, CaCertificate = Null, ClientCert = Null, ClientKey = Null,
      Insecure = Null, ResponseBody = Null, Body = Null, ResponseBodyBase64 = Null,
      StatusCode = Null, SuccessStatusCodes = codes\<rparr>"

section \<open>Properties\<close>

subsection \<open>Diagnostics\<close>

lemma statusIn_set: "statusIn codes s \<longleftrightarrow> s \<in> set codes"
  by (induction codes) auto

lemma HasError_append: "HasError (xs @ ys) \<longleftrightarrow> HasError xs \<or> HasError ys"
  by (simp add: HasError_def list_ex_iff) blast

lemma HasError_Append: "HasError (Append d ds) \<longleftrightarrow> HasError d \<or> HasError ds"
proof (induction ds arbitrary: d)
  case Nil
  then show ?case by (simp add: HasError_def)
next
  case (Cons x xs)
  show ?case
  proof (cases "x \<in> set d")
    case True
    then have "isError x \<Longrightarrow> HasError d" by (auto simp: HasError_def list_ex_iff)
    with True Cons show ?thesis by (auto simp: HasError_def list_ex_iff)
  next
    case False
    with Cons show ?thesis by (auto simp: HasError_def list_ex_iff)
  qed
qed

lemma HasError_AddError: "HasError (AddError d summary detail)"
  unfolding AddError_def HasError_Append by (simp add: HasError_def)

lemma HasError_AddWarning: "HasError (AddWarning d summary detail) \<longleftrightarrow> HasError d"
  unfolding AddWarning_def HasError_Append by (simp add: HasError_def)

lemma HasError_read_utf8: "HasError (read_utf8 d bytes) \<longleftrightarrow> HasError d"
  by (simp add: read_utf8_def HasError_AddWarning)

lemma Append_subset: "set d \<subseteq> set (Append d ds)"
proof (induction ds arbitrary: d)
  case Nil
  then show ?case by simp
next
  case (Cons a ds)
  from Cons[of d] Cons[of "d @ [a]"] show ?case by auto
qed

lemma AddWarning_mem: "WarningDiagnostic summary detail \<in> set (AddWarning d summary detail)"
  by (simp add: AddWarning_def)

subsection \<open>The retry loop\<close>

lemma Do_loop_exhaust:
  assumes "\<forall>j. i \<le> j \<and> j \<le> N \<longrightarrow> fst (CheckRetry c (Err ctx j) (RoundTrip E c req j))"
    and "\<forall>j. i \<le> j \<and> j < N \<longrightarrow> Done ctx j = None"
    and "RetryMax c = int N" and "i \<le> N"
  shows "Do_loop E ctx c req i =
     (Do_result E req (RoundTrip E c req N) (CheckRetry c (Err ctx N) (RoundTrip E c req N)) (Suc N), Suc N)"
  using assms
proof (induction "N - i" arbitrary: i)
  case 0
  then have "i = N" by simp
  with 0 show ?case by (subst Do_loop.simps) simp
next
  case (Suc k)
  then have lt: "i < N" by simp
  have r: "fst (CheckRetry c (Err ctx i) (RoundTrip E c req i))" using Suc.prems(1,4) by simp
  have d: "Done ctx i = None" using Suc.prems(2) lt by simp
  have "Do_loop E ctx c req i = Do_loop E ctx c req (Suc i)"
    using r d lt Suc.prems(3) by (subst Do_loop.simps) simp
  also have "\<dots> = (Do_result E req (RoundTrip E c req N) (CheckRetry c (Err ctx N) (RoundTrip E c req N)) (Suc N), Suc N)"
    using Suc.hyps(2) Suc.prems lt by (intro Suc.hyps(1)) auto
  finally show ?case .
qed

lemma Do_loop_stop:
  assumes "\<not> fst (CheckRetry c (Err ctx i) (RoundTrip E c req i))"
  shows "Do_loop E ctx c req i =
     (Do_result E req (RoundTrip E c req i) (CheckRetry c (Err ctx i) (RoundTrip E c req i)) (Suc i), Suc i)"
  using assms by (subst Do_loop.simps) simp

lemma Do_result_retry:
  "fst decision \<Longrightarrow> \<exists>err. Do_result E req out decision attempt = Inl err"
  by (cases out; cases decision; cases "snd decision") (auto simp: Do_result_def)

subsection \<open>The stages of the fetch\<close>

lemma read_stages:
  assumes "read_transport E m = Inr tr"
    and "read_retryClient E m tr d0 = Inr (c, timeout, d1)"
    and "read_request E m d1 = Inr (req, d2)"
  shows "read E ctx m d0 =
    (case Do E ctx c req of
       (Inl err, n) \<Rightarrow> (m, AddError d2 ''Error making request'' (requestErrorDetail E timeout err), n)
     | (Inr response, n) \<Rightarrow> (case read_result E m response d2 of (m', d3) \<Rightarrow> (m', d3, n)))"
  by (simp add: read_def assms)

lemma read_retryClient_fields:
  assumes "read_retryClient E m tr d0 = Inr (c, timeout, d1)"
  shows "CheckRetry c = makeCustomRetryPolicy (RecoverableError E) (case SuccessStatusCodes m of Value l \<Rightarrow> snd (ElementsAs E l) | _ \<Rightarrow> [])"
    and "RetryMax c = ValueInt64 (Attempts (snd (case Retry m of Value obj \<Rightarrow> ObjectAs E obj | _ \<Rightarrow> ([], zeroRetry))))"
  using assms
  by (auto simp: read_retryClient_def Let_def split: prod.splits if_splits tfvalue.splits)

lemma read_result_ok:
  assumes "RespBody response = Inr bytes"
    and "MapValueFrom E (map (\<lambda>(k, v). (k, Join v '', '')) (RespHeader response)) = (st, diags)"
    and "\<not> HasError d" and "\<not> HasError diags"
  shows "read_result E m response d =
      (assignResult m st (string_of_bytes bytes) (EncodeToString bytes) (RespStatusCode response),
       Append (read_utf8 d bytes) diags)"
    and "\<not> HasError (Append (read_utf8 d bytes) diags)"
  using assms by (auto simp: read_result_def Let_def HasError_Append HasError_read_utf8)

lemma read_retryClient_Inl: "read_retryClient E m tr d0 = Inl d \<Longrightarrow> HasError d"
  by (auto simp: read_retryClient_def Let_def split: prod.splits if_splits)

lemma read_headers_Inl: "read_headers E hs req d0 = Inl d \<Longrightarrow> HasError d"
  by (induction E hs req d0 rule: read_headers.induct)
     (auto simp: Let_def split: prod.splits if_splits)

lemma read_request_Inl: "read_request E m d0 = Inl d \<Longrightarrow> HasError d"
  by (auto simp: read_request_def Let_def HasError_AddError
      split: option.splits if_splits dest: read_headers_Inl)

lemma read_result_cases:
  "read_result E m response d = (m', d') \<Longrightarrow>
     (HasError d' \<and> m' = m)
   \<or> (\<not> HasError d' \<and>
       (\<exists>bytes st. RespBody response = Inr bytes
          \<and> m' = assignResult m st (string_of_bytes bytes) (EncodeToString bytes) (RespStatusCode response)))"
  by (auto simp: read_result_def Let_def HasError_AddError split: sum.splits prod.splits if_splits)

lemma read_cases:
  assumes "read E ctx m d0 = (m', d', n)"
  shows "(HasError d' \<and> m' = m)
   \<or> (\<not> HasError d' \<and>
       (\<exists>tr c timeout d1 req d2 response bytes st.
          read_transport E m = Inr tr \<and> read_retryClient E m tr d0 = Inr (c, timeout, d1)
          \<and> read_request E m d1 = Inr (req, d2) \<and> Do E ctx c req = (Inr response, n)
          \<and> RespBody response = Inr bytes
          \<and> m' = assignResult m st (string_of_bytes bytes) (EncodeToString bytes) (RespStatusCode response)))"
proof (cases "read_transport E m")
  case (Inl e)
  with assms show ?thesis by (auto simp: read_def HasError_AddError split: prod.splits)
next
  case tr: (Inr tr)
  show ?thesis
  proof (cases "read_retryClient E m tr d0")
    case (Inl d)
    with assms tr show ?thesis by (auto simp: read_def dest: read_retryClient_Inl)
  next
    case (Inr x)
    then obtain c timeout d1 where cl: "read_retryClient E m tr d0 = Inr (c, timeout, d1)"
      by (cases x) auto
    show ?thesis
    proof (cases "read_request E m d1")
      case (Inl d)
      with assms tr cl show ?thesis by (auto simp: read_def dest: read_request_Inl)
    next
      case (Inr y)
      then obtain req d2 where rq: "read_request E m d1 = Inr (req, d2)" by (cases y) auto
      obtain res k where do: "Do E ctx c req = (res, k)" by (cases "Do E ctx c req") auto
      show ?thesis
      proof (cases res)
        case (Inl err)
        with assms do show ?thesis
          by (auto simp: read_stages[OF tr cl rq] HasError_AddError)
      next
        case (Inr response)
        with assms do have rr: "read_result E m response d2 = (m', d')" and "k = n"
          by (auto simp: read_stages[OF tr cl rq] split: prod.splits)
        from read_result_cases[OF rr] tr cl rq do Inr \<open>k = n\<close> show ?thesis by blast
      qed
    qed
  qed
qed

lemma model_fields_without_client:
  "Retry (m\<lparr>ClientCert := a, ClientKey := b\<rparr>) = Retry m"
  "RequestTimeout (m\<lparr>ClientCert := a, ClientKey := b\<rparr>) = RequestTimeout m"
  "SuccessStatusCodes (m\<lparr>ClientCert := a, ClientKey := b\<rparr>) = SuccessStatusCodes m"
  "URL (m\<lparr>ClientCert := a, ClientKey := b\<rparr>) = URL m"
  "Method (m\<lparr>ClientCert := a, ClientKey := b\<rparr>) = Method m"
  "RequestBody (m\<lparr>ClientCert := a, ClientKey := b\<rparr>) = RequestBody m"
  "RequestHeaders (m\<lparr>ClientCert := a, ClientKey := b\<rparr>) = RequestHeaders m"
  by simp_all

lemma read_transport_ClientCert:
  assumes "IsNull (ClientCert m) \<noteq> IsNull (ClientKey m)"
  shows "read_transport E m = read_transport E (m\<lparr>ClientCert := Null, ClientKey := Null\<rparr>)"
  using assms by (auto simp: read_transport_def Let_def split: option.splits)

lemma read_transport_no_identity:
  assumes "IsNull (ClientCert m) \<noteq> IsNull (ClientKey m)"
    and "DefaultTransport E = Some tr" and "read_transport E m = Inr tr'"
  shows "map_option Certificates (TLSClientConfig tr') =
           Some (case TLSClientConfig tr of None \<Rightarrow> [] | Some cfg \<Rightarrow> Certificates cfg)"
  using assms
  by (auto simp: read_transport_def Let_def zeroConfig_def split: option.splits if_splits)

lemmas example_defs = serverEnv_def liveContext_def exampleModel_def constantServer_def never_def
  trusting_def
  statusResponse_def plainTransport_def HasError_def Let_def

subsection \<open>Bytes and base64\<close>

lemma bytes_of_string_of_bytes: "bytes_of_string (string_of_bytes bytes) = bytes"
proof -
  have "(of_nat (of_char (char_of (unat b) :: char)) :: byte) = b" for b :: byte
  proof -
    have "unat b < 256" using unsigned_less[of b] by simp
    then show ?thesis by simp
  qed
  then show ?thesis
    by (simp add: bytes_of_string_def string_of_bytes_def map_idI)
qed

lemma indexOf_nth: "distinct xs \<Longrightarrow> n < length xs \<Longrightarrow> indexOf xs (xs ! n) = Some n"
proof (induction xs arbitrary: n)
  case Nil
  then show ?case by simp
next
  case (Cons x xs)
  show ?case
  proof (cases n)
    case 0
    then show ?thesis by simp
  next
    case (Suc k)
    with Cons.prems have "xs ! k \<in> set xs" "x \<notin> set xs" by auto
    then have "x \<noteq> xs ! k" by auto
    with Cons Suc show ?thesis by auto
  qed
qed

lemma distinct_encodeStd: "distinct encodeStd"
  unfolding encodeStd_def by simp

lemma length_encodeStd: "length encodeStd = 64"
  unfolding encodeStd_def by simp

lemma padChar_notin: "padChar \<notin> set encodeStd"
  unfolding encodeStd_def padChar_def by simp

lemma decodeSextet_encodeSextet: "decodeSextet (encodeSextet v) = Some (v mod 64)"
  unfolding decodeSextet_def encodeSextet_def
  by (rule indexOf_nth[OF distinct_encodeStd]) (simp add: length_encodeStd)

lemma encodeSextet_not_pad: "encodeSextet v \<noteq> padChar"
proof -
  have "encodeSextet v \<in> set encodeStd"
    unfolding encodeSextet_def by (rule nth_mem) (simp add: length_encodeStd)
  with padChar_notin show ?thesis by auto
qed

lemma byte_of_nat_mod: "(of_nat (n mod 256) :: byte) = of_nat n"
  by (simp add: word_eq_iff_unsigned[where ?'a = nat] unsigned_of_nat take_bit_eq_mod)

lemma sextets_join:
  assumes "val < 16777216"
  shows "(val div 262144) mod 64 * 262144 + (val div 4096) mod 64 * 4096
       + (val div 64) mod 64 * 64 + val mod 64 = (val :: nat)"
proof -
  define q1 where "q1 = val div 64"
  define q2 where "q2 = q1 div 64"
  define q3 where "q3 = q2 div 64"
  have h2: "val div 4096 = q2"
    unfolding q2_def q1_def using div_mult2_eq[of val 64 64] by simp
  have h3: "val div 262144 = q3"
    unfolding q3_def h2[symmetric] using div_mult2_eq[of val 4096 64] by simp
  have small: "q3 < 64" unfolding h3[symmetric] using assms by simp
  have e0: "val = q1 * 64 + val mod 64" unfolding q1_def by simp
  have e1: "q1 = q2 * 64 + q1 mod 64" unfolding q2_def by simp
  have e2: "q2 = q3 * 64 + q2 mod 64" unfolding q3_def by simp
  have "q3 mod 64 * 262144 + q2 mod 64 * 4096 + q1 mod 64 * 64 + val mod 64
      = ((q3 * 64 + q2 mod 64) * 64 + q1 mod 64) * 64 + val mod 64"
    using small by simp
  also have "\<dots> = val" using e0 e1 e2 by simp
  finally show ?thesis unfolding h2 h3 q1_def[symmetric] .
qed

lemma split24:
  fixes x y z :: nat
  assumes "y < 256" "z < 256"
  shows "(x * 65536 + y * 256 + z) div 65536 = x"
    and "(x * 65536 + y * 256 + z) div 256 mod 256 = y"
    and "(x * 65536 + y * 256 + z) mod 256 = z"
proof -
  have a: "x * 65536 + y * 256 + z = (x * 256 + y) * 256 + z" by simp
  have dv: "(q * 256 + r) div 256 = q" and md: "(q * 256 + r) mod 256 = r"
    if "r < 256" for q r :: nat
    using that by simp_all
  have b: "(x * 65536 + y * 256 + z) div 256 = x * 256 + y"
    by (simp only: a dv[OF assms(2)])
  have c: "(x * 256 + y) div 256 = x" by (rule dv[OF assms(1)])
  show "(x * 65536 + y * 256 + z) div 65536 = x"
    using div_mult2_eq[of "x * 65536 + y * 256 + z" 256 256] by (simp only: b c) simp
  show "(x * 65536 + y * 256 + z) div 256 mod 256 = y"
    by (simp only: b md[OF assms(1)])
  show "(x * 65536 + y * 256 + z) mod 256 = z"
    by (simp only: a md[OF assms(2)])
qed

lemma decodeQuantum_three:
  fixes a b c :: byte
  defines "val \<equiv> unat a * 65536 + unat b * 256 + unat c"
  shows "decodeQuantum (encodeSextet (val div 262144)) (encodeSextet (val div 4096))
           (encodeSextet (val div 64)) (encodeSextet val) final = Some [a, b, c]"
proof -
  have la: "unat a < 256" and lb: "unat b < 256" and lc: "unat c < 256"
    using unsigned_less[of a] unsigned_less[of b] unsigned_less[of c] by simp_all
  then have lt: "val < 16777216" unfolding val_def by linarith
  have d1: "val div 65536 = unat a" unfolding val_def by (rule split24(1)[OF lb lc])
  have d2: "(val div 256) mod 256 = unat b" unfolding val_def by (rule split24(2)[OF lb lc])
  have d3: "val mod 256 = unat c" unfolding val_def by (rule split24(3)[OF lb lc])
  have b1: "(of_nat (val div 65536) :: byte) = a" by (simp add: d1)
  have b2: "(of_nat (val div 256) :: byte) = b"
    using byte_of_nat_mod[of "val div 256"] by (simp add: d2)
  have b3: "(of_nat val :: byte) = c"
    using byte_of_nat_mod[of val] by (simp add: d3)
  show ?thesis
    by (simp add: decodeQuantum_def decodeSextet_encodeSextet encodeSextet_not_pad
        sextets_join[OF lt] b1 b2 b3 Let_def)
qed

lemma decodeQuantum_two:
  fixes a b :: byte
  defines "val \<equiv> unat a * 65536 + unat b * 256"
  shows "decodeQuantum (encodeSextet (val div 262144)) (encodeSextet (val div 4096))
           (encodeSextet (val div 64)) padChar True = Some [a, b]"
proof -
  have la: "unat a < 256" and lb: "unat b < 256"
    using unsigned_less[of a] unsigned_less[of b] by simp_all
  have v: "val = unat a * 65536 + unat b * 256 + 0" unfolding val_def by simp
  have lt: "val < 16777216" unfolding val_def using la lb by linarith
  have d1: "val div 65536 = unat a" unfolding v by (rule split24(1)[OF lb]) simp
  have d2: "(val div 256) mod 256 = unat b" unfolding v by (rule split24(2)[OF lb]) simp
  have "val = (unat a * 1024 + unat b * 4) * 64" unfolding val_def by simp
  then have m: "val mod 64 = 0" by simp
  have j: "(val div 262144) mod 64 * 262144 + (val div 4096) mod 64 * 4096
       + (val div 64) mod 64 * 64 = val"
    using sextets_join[OF lt] by (simp only: m add_0_right)
  have b1: "(of_nat (val div 65536) :: byte) = a" by (simp add: d1)
  have b2: "(of_nat (val div 256) :: byte) = b"
    using byte_of_nat_mod[of "val div 256"] by (simp add: d2)
  show ?thesis
    by (simp add: decodeQuantum_def decodeSextet_encodeSextet encodeSextet_not_pad j b1 b2 Let_def)
qed

lemma decodeQuantum_one:
  fixes a :: byte
  defines "val \<equiv> unat a * 65536"
  shows "decodeQuantum (encodeSextet (val div 262144)) (encodeSextet (val div 4096))
           padChar padChar True = Some [a]"
proof -
  have la: "unat a < 256" using unsigned_less[of a] by simp
  have v: "val = unat a * 65536 + 0 * 256 + 0" unfolding val_def by simp
  have lt: "val < 16777216" unfolding val_def using la by linarith
  have d1: "val div 65536 = unat a" unfolding v by (rule split24(1)) simp_all
  have "val = (unat a * 1024) * 64" unfolding val_def by simp
  then have m: "val mod 64 = 0" and q: "val div 64 = unat a * 16 * 64" by simp_all
  have m2: "(val div 64) mod 64 = 0" unfolding q by simp
  have j: "(val div 262144) mod 64 * 262144 + (val div 4096) mod 64 * 4096 = val"
    using sextets_join[OF lt] by (simp only: m m2 mult_zero_left add_0_right)
  have b1: "(of_nat (val div 65536) :: byte) = a" by (simp add: d1)
  show ?thesis
    by (simp add: decodeQuantum_def decodeSextet_encodeSextet j b1)
qed

lemma EncodeToString_Nil: "EncodeToString bytes = [] \<longleftrightarrow> bytes = []"
  by (induction bytes rule: EncodeToString.induct) (simp_all add: Let_def)

lemma DecodeString_EncodeToString: "DecodeString (EncodeToString bytes) = Some bytes"
proof (induction bytes rule: EncodeToString.induct)
  case 1
  then show ?case by simp
next
  case (2 a)
  then show ?case using decodeQuantum_one[of a] by (simp add: Let_def)
next
  case (3 a b)
  then show ?case using decodeQuantum_two[of a b] by (simp add: Let_def)
next
  case (4 a b c rest)
  let ?val = "unat a * 65536 + unat b * 256 + unat c"
  show ?case
  proof (cases "EncodeToString rest")
    case Nil
    then have "rest = []" by (simp add: EncodeToString_Nil)
    then show ?thesis using decodeQuantum_three[of a b c True] by (simp add: Let_def)
  next
    case (Cons x xs)
    then show ?thesis using decodeQuantum_three[of a b c False] 4 by (simp add: Let_def)
  qed
qed

subsection \<open>Retry attempts\<close>

text \<open>
  C1. With retry attempts set to \<open>N\<close> and every attempt judged retryable by the policy
  (a server that always answers 503 is the instance of the witness), and a context
  that is not cancelled while the client waits, the fetch makes exactly \<open>N + 1\<close>
  attempts, leaves the model without a result and adds the error diagnostic
  "Error making request".
\<close>

theorem read_retries_exhausted:
  assumes "read_transport E m = Inr tr"
    and "read_retryClient E m tr d0 = Inr (c, timeout, d1)"
    and "read_request E m d1 = Inr (req, d2)"
    and "Retry m = Value obj" and "Attempts (snd (ObjectAs E obj)) = Value (int N)"
    and "\<forall>i\<le>N. fst (CheckRetry c (Err ctx i) (RoundTrip E c req i))"
    and "\<forall>i<N. Done ctx i = None"
  shows "\<exists>err. Do_result E req (RoundTrip E c req N)
                 (CheckRetry c (Err ctx N) (RoundTrip E c req N)) (Suc N) = Inl err
           \<and> read E ctx m d0 =
               (m, AddError d2 ''Error making request'' (requestErrorDetail E timeout err), N + 1)
           \<and> HasError (AddError d2 ''Error making request'' (requestErrorDetail E timeout err))"
proof -
  have max: "RetryMax c = int N"
    using read_retryClient_fields(2)[OF assms(2)] assms(4,5) by simp
  have loop: "Do E ctx c req =
      (Do_result E req (RoundTrip E c req N) (CheckRetry c (Err ctx N) (RoundTrip E c req N)) (Suc N), Suc N)"
    unfolding Do_def using assms(6,7) max by (intro Do_loop_exhaust) auto
  from assms(6) have "fst (CheckRetry c (Err ctx N) (RoundTrip E c req N))" by simp
  then obtain err where err: "Do_result E req (RoundTrip E c req N)
      (CheckRetry c (Err ctx N) (RoundTrip E c req N)) (Suc N) = Inl err"
    using Do_result_retry by blast
  have "read E ctx m d0 =
      (m, AddError d2 ''Error making request'' (requestErrorDetail E timeout err), N + 1)"
    by (simp add: read_stages[OF assms(1-3)] loop err)
  with err show ?thesis by (auto simp: HasError_AddError)
qed

theorem read_retries_exhausted_witness:
  "read (serverEnv (constantServer (Responded (statusResponse 503 ''503 Service Unavailable'' []))))
     liveContext (exampleModel (Value 2) Null) [] =
   (exampleModel (Value 2) Null,
    [ErrorDiagnostic ''Error making request''
      ''Error making request: GET http://example.test/ giving up after 3 attempt(s)''], 3)"
proof -
  let ?E = "serverEnv (constantServer (Responded (statusResponse 503 ''503 Service Unavailable'' [])))"
  let ?m = "exampleModel (Value 2) Null"
  let ?tr = "\<lparr>Proxy = ProxyFromEnvironment, TLSClientConfig = Some zeroConfig\<rparr>"
  let ?c = "(NewClient (RecoverableError ?E) ?tr)\<lparr>RetryMax := 2,
      CheckRetry := makeCustomRetryPolicy (RecoverableError ?E) []\<rparr>"
  let ?req = "\<lparr>ReqMethod = ''GET'', ReqURL = ''http://example.test/'', ReqHost = ''http://example.test/'',
          ReqHeader = [], ReqBody = None\<rparr>"
  have a: "read_transport ?E ?m = Inr ?tr"
    by (simp add: read_transport_def example_defs)
  have b: "read_retryClient ?E ?m ?tr [] = Inr (?c, 0, [])"
    by (simp add: read_retryClient_def example_defs zeroRetry_def)
  have c: "read_request ?E ?m [] = Inr (?req, [])"
    by (simp add: read_request_def example_defs)
  have d: "Retry ?m = Value \<lparr>Attempts = Value 2, MinDelay = Null, MaxDelay = Null\<rparr>"
    by (simp add: example_defs)
  have e: "Attempts (snd (ObjectAs ?E \<lparr>Attempts = Value 2, MinDelay = Null, MaxDelay = Null\<rparr>)) = Value (int 2)"
    by (simp add: example_defs)
  have f: "\<forall>i\<le>2. fst (CheckRetry ?c (Err liveContext i) (RoundTrip ?E ?c ?req i))"
    by (simp add: example_defs makeCustomRetryPolicy_def DefaultRetryPolicy_def)
  have g: "\<forall>i<2. Done liveContext i = None"
    by (simp add: example_defs)
  from read_retries_exhausted[OF a b c d e f g]
  show ?thesis
    by (simp add: example_defs makeCustomRetryPolicy_def DefaultRetryPolicy_def Do_result_def
        givingUp_def requestErrorDetail_def AddError_def digit_def itoa.simps)
qed

subsection \<open>Success status codes\<close>

text \<open>
  C2. With a non-empty list of success status codes and a response received under a live
  context: a status in the list stops the retries with success; a status outside the
  list is retried with the error "unexpected HTTP status", also where the baseline
  would not retry (status 200 in the witness); and when every attempt answers with a
  status outside the list, the fetch gives up after \<open>N + 1\<close> attempts and its error
  diagnostic reports the unexpected HTTP status of the last response.
\<close>

theorem successStatusCodes_policy:
  assumes "successStatusCodes \<noteq> []"
  shows "(RespStatusCode resp \<in> set successStatusCodes \<longrightarrow>
            makeCustomRetryPolicy recoverable successStatusCodes None (Responded resp) = (False, None))
       \<and> (RespStatusCode resp \<notin> set successStatusCodes \<longrightarrow>
            makeCustomRetryPolicy recoverable successStatusCodes None (Responded resp) =
              (True, Some (PlainError (''unexpected HTTP status '' @ RespStatus resp))))
       \<and> (read_transport E m = Inr tr \<and> read_retryClient E m tr d0 = Inr (c, timeout, d1)
            \<and> read_request E m d1 = Inr (req, d2)
            \<and> SuccessStatusCodes m = Value l \<and> snd (ElementsAs E l) = successStatusCodes
            \<and> Retry m = Value obj \<and> Attempts (snd (ObjectAs E obj)) = Value (int N)
            \<and> (\<forall>i\<le>N. Err ctx i = None \<and> RoundTrip E c req i = Responded (answer i)
                        \<and> RespStatusCode (answer i) \<notin> set successStatusCodes)
            \<and> (\<forall>i<N. Done ctx i = None) \<longrightarrow>
          read E ctx m d0 =
            (m, AddError d2 ''Error making request''
                  (''Error making request: '' @ givingUp E req (Suc N)
                     @ '': unexpected HTTP status '' @ RespStatus (answer N)), Suc N))"
proof (intro conjI impI)
  have out: "makeCustomRetryPolicy judge successStatusCodes None (Responded r) =
              (True, Some (PlainError (''unexpected HTTP status '' @ RespStatus r)))"
    if "RespStatusCode r \<notin> set successStatusCodes" for r judge
    using that assms by (simp add: makeCustomRetryPolicy_def DefaultRetryPolicy_def statusIn_set)
  show "makeCustomRetryPolicy recoverable successStatusCodes None (Responded resp) = (False, None)"
    if "RespStatusCode resp \<in> set successStatusCodes"
    using that assms by (simp add: makeCustomRetryPolicy_def DefaultRetryPolicy_def statusIn_set)
  show "makeCustomRetryPolicy recoverable successStatusCodes None (Responded resp) =
              (True, Some (PlainError (''unexpected HTTP status '' @ RespStatus resp)))"
    if "RespStatusCode resp \<notin> set successStatusCodes"
    using that by (rule out)
  assume H: "read_transport E m = Inr tr \<and> read_retryClient E m tr d0 = Inr (c, timeout, d1)
            \<and> read_request E m d1 = Inr (req, d2)
            \<and> SuccessStatusCodes m = Value l \<and> snd (ElementsAs E l) = successStatusCodes
            \<and> Retry m = Value obj \<and> Attempts (snd (ObjectAs E obj)) = Value (int N)
            \<and> (\<forall>i\<le>N. Err ctx i = None \<and> RoundTrip E c req i = Responded (answer i)
                        \<and> RespStatusCode (answer i) \<notin> set successStatusCodes)
            \<and> (\<forall>i<N. Done ctx i = None)"
  then have st: "read_transport E m = Inr tr" "read_retryClient E m tr d0 = Inr (c, timeout, d1)"
    "read_request E m d1 = Inr (req, d2)" by simp_all
  have pol: "CheckRetry c = makeCustomRetryPolicy (RecoverableError E) successStatusCodes"
    using read_retryClient_fields(1)[OF st(2)] H by simp
  have max: "RetryMax c = int N"
    using read_retryClient_fields(2)[OF st(2)] H by simp
  have dec: "CheckRetry c (Err ctx i) (RoundTrip E c req i) =
      (True, Some (PlainError (''unexpected HTTP status '' @ RespStatus (answer i))))" if "i \<le> N" for i
    using H that by (simp add: pol out)
  have loop: "Do E ctx c req =
      (Do_result E req (RoundTrip E c req N) (CheckRetry c (Err ctx N) (RoundTrip E c req N)) (Suc N), Suc N)"
    unfolding Do_def using H max dec by (intro Do_loop_exhaust) auto
  have res: "Do_result E req (RoundTrip E c req N) (CheckRetry c (Err ctx N) (RoundTrip E c req N)) (Suc N)
      = Inl (Wrapped (givingUp E req (Suc N) @ '': '')
               (PlainError (''unexpected HTTP status '' @ RespStatus (answer N))))"
  proof -
    have rt: "RoundTrip E c req N = Responded (answer N)" using H by simp
    show ?thesis unfolding dec[OF le_refl] unfolding rt by (simp add: Do_result_def)
  qed
  show "read E ctx m d0 =
            (m, AddError d2 ''Error making request''
                  (''Error making request: '' @ givingUp E req (Suc N)
                     @ '': unexpected HTTP status '' @ RespStatus (answer N)), Suc N)"
    by (simp add: read_stages[OF st] loop res requestErrorDetail_def)
qed

theorem successStatusCodes_policy_witness:
  "makeCustomRetryPolicy trusting [201] None (Responded (statusResponse 201 ''201 Created'' []))
     = (False, None)
   \<and> makeCustomRetryPolicy trusting [201] None (Responded (statusResponse 200 ''200 OK'' [])) =
       (True, Some (PlainError ''unexpected HTTP status 200 OK''))
   \<and> DefaultRetryPolicy trusting None (Responded (statusResponse 200 ''200 OK'' [])) = (False, None)
   \<and> read (serverEnv (constantServer (Responded (statusResponse 200 ''200 OK'' []))))
        liveContext (exampleModel (Value 2) (Value [201])) [] =
       (exampleModel (Value 2) (Value [201]),
        [ErrorDiagnostic ''Error making request''
          ''Error making request: GET http://example.test/ giving up after 3 attempt(s): unexpected HTTP status 200 OK''],
        3)"
proof -
  let ?ok = "statusResponse 200 ''200 OK'' []"
  let ?E = "serverEnv (constantServer (Responded ?ok))"
  let ?m = "exampleModel (Value 2) (Value [201])"
  let ?tr = "\<lparr>Proxy = ProxyFromEnvironment, TLSClientConfig = Some zeroConfig\<rparr>"
  let ?c = "(NewClient (RecoverableError ?E) ?tr)\<lparr>RetryMax := 2,
      CheckRetry := makeCustomRetryPolicy (RecoverableError ?E) [201]\<rparr>"
  let ?req = "\<lparr>ReqMethod = ''GET'', ReqURL = ''http://example.test/'',
               ReqHost = ''http://example.test/'', ReqHeader = [], ReqBody = None\<rparr>"
  let ?obj = "\<lparr>Attempts = Value 2, MinDelay = Null, MaxDelay = Null\<rparr>"
  have ne: "[201 :: int] \<noteq> []" by simp
  have a: "read_transport ?E ?m = Inr ?tr"
    by (simp add: read_transport_def example_defs)
  have b: "read_retryClient ?E ?m ?tr [] = Inr (?c, 0, [])"
    by (simp add: read_retryClient_def example_defs zeroRetry_def)
  have c: "read_request ?E ?m [] = Inr (?req, [])"
    by (simp add: read_request_def example_defs)
  have d: "SuccessStatusCodes ?m = Value [201] \<and> snd (ElementsAs ?E [201]) = [201]
      \<and> Retry ?m = Value ?obj \<and> Attempts (snd (ObjectAs ?E ?obj)) = Value (int 2)"
    by (simp add: example_defs)
  have e: "\<forall>i\<le>2. Err liveContext i = None \<and> RoundTrip ?E ?c ?req i = Responded ((\<lambda>i. ?ok) i)
      \<and> RespStatusCode ((\<lambda>i. ?ok) i) \<notin> set [201]"
    by (simp add: example_defs)
  have f: "\<forall>i<2. Done liveContext i = None"
    by (simp add: example_defs)
  have in_set: "RespStatusCode (statusResponse 201 ''201 Created'' []) \<in> set [201]"
    by (simp add: statusResponse_def)
  have not_in: "RespStatusCode ?ok \<notin> set [201]"
    by (simp add: statusResponse_def)
  have base: "DefaultRetryPolicy trusting None (Responded ?ok) = (False, None)"
    by (simp add: DefaultRetryPolicy_def statusResponse_def)
  from successStatusCodes_policy[OF ne, where resp = "statusResponse 201 ''201 Created'' []"] in_set
  have one: "makeCustomRetryPolicy trusting [201] None (Responded (statusResponse 201 ''201 Created'' [])) = (False, None)"
    by blast
  from successStatusCodes_policy[OF ne, where resp = ?ok and E = ?E and m = ?m and tr = ?tr
      and ?d0.0 = "[]" and c = ?c and timeout = 0 and ?d1.0 = "[]" and req = ?req and ?d2.0 = "[]"
      and l = "[201]" and obj = ?obj and N = 2 and ctx = liveContext and answer = "\<lambda>i. ?ok"]
    a b c d e f not_in
  have two: "makeCustomRetryPolicy trusting [201] None (Responded ?ok) =
        (True, Some (PlainError (''unexpected HTTP status '' @ RespStatus ?ok)))"
    and three: "read ?E liveContext ?m [] =
            (?m, AddError [] ''Error making request''
                  (''Error making request: '' @ givingUp ?E ?req (Suc 2)
                     @ '': unexpected HTTP status '' @ RespStatus ?ok), Suc 2)"
    by blast+
  have four: "AddError [] ''Error making request''
                  (''Error making request: '' @ givingUp ?E ?req (Suc 2)
                     @ '': unexpected HTTP status '' @ RespStatus ?ok)
     = [ErrorDiagnostic ''Error making request''
          ''Error making request: GET http://example.test/ giving up after 3 attempt(s): unexpected HTTP status 200 OK'']"
    by (simp add: example_defs givingUp_def AddError_def digit_def itoa.simps)
  from one two three four base show ?thesis
    by (simp add: statusResponse_def)
qed

subsection \<open>Status 501\<close>

text \<open>
  C3, as the code has it. Without success status codes, a response with status 501 to
  the first attempt is not retried: the fetch makes exactly one attempt. It is no
  failure either: when the body is read and nothing else went wrong, the model gets the
  result with status code 501 and no error diagnostic is added.
\<close>

theorem read_not_implemented:
  assumes "read_transport E m = Inr tr"
    and "read_retryClient E m tr d0 = Inr (c, timeout, d1)"
    and "read_request E m d1 = Inr (req, d2)"
    and "SuccessStatusCodes m = Null"
    and "Err ctx 0 = None"
    and "RoundTrip E c req 0 = Responded response"
    and "RespStatusCode response = 501"
    and "RespBody response = Inr bytes"
    and "MapValueFrom E (map (\<lambda>(k, v). (k, Join v '', '')) (RespHeader response)) = (st, diags)"
    and "\<not> HasError d2" and "\<not> HasError diags"
  shows "read E ctx m d0 =
           (assignResult m st (string_of_bytes bytes) (EncodeToString bytes) 501,
            Append (read_utf8 d2 bytes) diags, 1)
         \<and> \<not> HasError (Append (read_utf8 d2 bytes) diags)"
proof -
  have pol: "CheckRetry c = makeCustomRetryPolicy (RecoverableError E) []"
    using read_retryClient_fields(1)[OF assms(2)] assms(4) by simp
  have dec: "CheckRetry c (Err ctx 0) (RoundTrip E c req 0) = (False, None)"
    by (simp add: pol assms(5,6,7) makeCustomRetryPolicy_def DefaultRetryPolicy_def)
  have "Do E ctx c req = (Inr response, 1)"
    unfolding Do_def by (subst Do_loop_stop) (simp_all add: dec dec[unfolded assms(6)] assms(6) Do_result_def)
  then show ?thesis
    using read_result_ok(1)[OF assms(8,9,10,11), where m = m] read_result_ok(2)[OF assms(8,9,10,11)]
      assms(7)
    by (simp add: read_stages[OF assms(1-3)])
qed

theorem read_not_implemented_witness:
  "read (serverEnv (constantServer (Responded (statusResponse 501 ''501 Not Implemented'' []))))
     liveContext (exampleModel (Value 2) Null) [] =
   (assignResult (exampleModel (Value 2) Null) (Value []) [] [] 501, [], 1)"
proof -
  let ?r = "statusResponse 501 ''501 Not Implemented'' []"
  let ?E = "serverEnv (constantServer (Responded ?r))"
  let ?m = "exampleModel (Value 2) Null"
  let ?tr = "\<lparr>Proxy = ProxyFromEnvironment, TLSClientConfig = Some zeroConfig\<rparr>"
  let ?c = "(NewClient (RecoverableError ?E) ?tr)\<lparr>RetryMax := 2,
      CheckRetry := makeCustomRetryPolicy (RecoverableError ?E) []\<rparr>"
  let ?req = "\<lparr>ReqMethod = ''GET'', ReqURL = ''http://example.test/'',
               ReqHost = ''http://example.test/'', ReqHeader = [], ReqBody = None\<rparr>"
  have a: "read_transport ?E ?m = Inr ?tr"
    by (simp add: read_transport_def example_defs)
  have b: "read_retryClient ?E ?m ?tr [] = Inr (?c, 0, [])"
    by (simp add: read_retryClient_def example_defs zeroRetry_def)
  have c: "read_request ?E ?m [] = Inr (?req, [])"
    by (simp add: read_request_def example_defs)
  have d: "SuccessStatusCodes ?m = Null" by (simp add: example_defs)
  have e: "Err liveContext 0 = None" by (simp add: example_defs)
  have f: "RoundTrip ?E ?c ?req 0 = Responded ?r" by (simp add: example_defs)
  have g: "RespStatusCode ?r = 501" by (simp add: example_defs)
  have h: "RespBody ?r = Inr []" by (simp add: example_defs)
  have i: "MapValueFrom ?E (map (\<lambda>(k, v). (k, Join v '', '')) (RespHeader ?r)) = (Value [], [])"
    by (simp add: example_defs)
  have j: "\<not> HasError []" by (simp add: HasError_def)
  from read_not_implemented[OF a b c d e f g h i j j]
  show ?thesis
    by (simp add: string_of_bytes_def read_utf8_def)
qed

text \<open>The claim as stated asks for a fatal diagnostic: with a server that answers 501 and
  two retries allowed, the fetch makes one attempt, adds no error diagnostic and sets
  the status code to 501.\<close>

theorem read_not_implemented_counterexample:
  "snd (snd (read (serverEnv (constantServer (Responded (statusResponse 501 ''501 Not Implemented'' []))))
               liveContext (exampleModel (Value 2) Null) [])) = 1
   \<and> \<not> HasError (fst (snd (read (serverEnv (constantServer (Responded (statusResponse 501 ''501 Not Implemented'' []))))
               liveContext (exampleModel (Value 2) Null) [])))
   \<and> StatusCode (fst (read (serverEnv (constantServer (Responded (statusResponse 501 ''501 Not Implemented'' []))))
               liveContext (exampleModel (Value 2) Null) [])) = Value 501"
  by code_simp

subsection \<open>The retry policy\<close>

text \<open>
  C4. When the attempt ended in a transport-level error and the context is not cancelled
  (\<^verbatim>\<open>ctx.Err()\<close> is nil), the retry decision is to retry, with no error reported,
  whatever the baseline decided for that error: the baseline's answer is
  \<open>recoverable err\<close>, which may be either, and the decision is to retry for every
  \<open>recoverable\<close>, every error and every list of success status codes.
\<close>

theorem makeCustomRetryPolicy_transport_error:
  "fst (DefaultRetryPolicy recoverable None (Failed err)) = recoverable err
   \<and> makeCustomRetryPolicy recoverable successStatusCodes None (Failed err) = (True, None)"
  by (simp add: makeCustomRetryPolicy_def DefaultRetryPolicy_def)

text \<open>
  C5. With a calling context that is already cancelled, the retry decision never retries:
  it stops and returns the context's error, whatever the attempt's outcome and whatever
  the success status codes are.
\<close>

theorem makeCustomRetryPolicy_cancelled:
  "makeCustomRetryPolicy recoverable successStatusCodes (Some e) out = (False, Some e)"
  by (simp add: makeCustomRetryPolicy_def)

subsection \<open>The result of a fetch\<close>

text \<open>
  C6. When the fetch ends without an error diagnostic, it went through a response whose
  body was read as some bytes; the model's \<open>ResponseBody\<close> is the string of these
  bytes and \<open>ResponseBodyBase64\<close> their standard base64 encoding, decoding the
  base64 text gives the bytes back, and so do the bytes of the string.
\<close>

theorem read_body_encodings:
  assumes "read E ctx m d0 = (m', d', n)" and "\<not> HasError d'"
  shows "\<exists>tr c timeout d1 req d2 response bytes.
           read_transport E m = Inr tr \<and> read_retryClient E m tr d0 = Inr (c, timeout, d1)
         \<and> read_request E m d1 = Inr (req, d2) \<and> Do E ctx c req = (Inr response, n)
         \<and> RespBody response = Inr bytes
         \<and> ResponseBody m' = Value (string_of_bytes bytes)
         \<and> ResponseBodyBase64 m' = Value (EncodeToString bytes)
         \<and> DecodeString (EncodeToString bytes) = Some bytes
         \<and> bytes_of_string (string_of_bytes bytes) = bytes"
proof -
  from read_cases[OF assms(1)] assms(2)
  obtain tr c timeout d1 req d2 response bytes st where
    "read_transport E m = Inr tr" "read_retryClient E m tr d0 = Inr (c, timeout, d1)"
    "read_request E m d1 = Inr (req, d2)" "Do E ctx c req = (Inr response, n)"
    "RespBody response = Inr bytes"
    "m' = assignResult m st (string_of_bytes bytes) (EncodeToString bytes) (RespStatusCode response)"
    by blast
  then show ?thesis
    using DecodeString_EncodeToString[of bytes] bytes_of_string_of_bytes[of bytes]
    by (auto simp: assignResult_def)
qed

theorem read_body_encodings_witness:
  "ResponseBodyBase64 (fst (read (serverEnv (constantServer (Responded (statusResponse 200 ''200 OK'' [104, 105]))))
       liveContext (exampleModel (Value 2) Null) [])) = Value ''aGk=''
   \<and> DecodeString ''aGk='' = Some [104, 105]
   \<and> bytes_of_string (ValueString (ResponseBody (fst (read (serverEnv (constantServer (Responded (statusResponse 200 ''200 OK'' [104, 105]))))
       liveContext (exampleModel (Value 2) Null) [])))) = [104, 105]"
proof -
  let ?r = "statusResponse 200 ''200 OK'' [104, 105]"
  let ?E = "serverEnv (constantServer (Responded ?r))"
  let ?m = "exampleModel (Value 2) Null"
  let ?m' = "assignResult ?m (Value []) (string_of_bytes [104, 105]) (EncodeToString [104, 105]) 200"
  have r: "read ?E liveContext ?m [] = (?m', [], 1)"
    by (simp add: read_def read_transport_def read_retryClient_def read_request_def read_result_def
        read_utf8_def Do_def Do_loop.simps Do_result_def makeCustomRetryPolicy_def
        DefaultRetryPolicy_def zeroRetry_def NewClient_def example_defs)
  have ok: "\<not> HasError []" by (simp add: HasError_def)
  have enc: "EncodeToString [104, 105] = ''aGk=''"
    by (simp add: encodeSextet_def encodeStd_def padChar_def)
  from read_body_encodings[OF r ok]
  obtain bytes where b: "ResponseBody ?m' = Value (string_of_bytes bytes)"
    "DecodeString (EncodeToString bytes) = Some bytes"
    "bytes_of_string (string_of_bytes bytes) = bytes"
    by blast
  from b(1) have s: "string_of_bytes bytes = string_of_bytes [104, 105]"
    by (simp add: assignResult_def)
  have eq: "bytes = [104, 105]"
    using b(3) bytes_of_string_of_bytes[of "[104, 105]"] unfolding s by simp
  from b(2) have "DecodeString ''aGk='' = Some [104, 105]"
    unfolding eq enc .
  then show ?thesis
    unfolding r using bytes_of_string_of_bytes[of "[104, 105]"] enc
    by (simp add: assignResult_def)
qed

text \<open>
  C7, as the code has it. When the diagnostics after the fetch hold no error, the status
  code of the model is set; when they hold an error, the fetch has assigned nothing and
  the model is as it was on entry, its status code included. So for a model whose status
  code is not yet set on entry (null or unknown, as in the configuration that
  \<^verbatim>\<open>Create\<close> reads), the status code is set after the fetch if and only if the
  diagnostics hold no error.
\<close>

theorem read_statusCode_iff:
  "(\<not> HasError (fst (snd (read E ctx m d0))) \<longrightarrow>
      \<not> IsNull (StatusCode (fst (read E ctx m d0)))
      \<and> \<not> IsUnknown (StatusCode (fst (read E ctx m d0))))
   \<and> (HasError (fst (snd (read E ctx m d0))) \<longrightarrow> fst (read E ctx m d0) = m)
   \<and> (IsNull (StatusCode m) \<or> IsUnknown (StatusCode m) \<longrightarrow>
        ((\<not> IsNull (StatusCode (fst (read E ctx m d0)))
            \<and> \<not> IsUnknown (StatusCode (fst (read E ctx m d0))))
         \<longleftrightarrow> \<not> HasError (fst (snd (read E ctx m d0)))))"
proof -
  obtain m' d' n where r: "read E ctx m d0 = (m', d', n)" by (cases "read E ctx m d0") auto
  from read_cases[OF r] show ?thesis
    by (auto simp: r assignResult_def)
qed

theorem read_statusCode_iff_witness:
  "\<not> HasError (fst (snd (read (serverEnv (constantServer (Responded (statusResponse 200 ''200 OK'' []))))
          liveContext (exampleModel (Value 2) Null) [])))
   \<and> IsNull (StatusCode (exampleModel (Value 2) Null))
   \<and> \<not> IsNull (StatusCode (fst (read (serverEnv (constantServer (Responded (statusResponse 200 ''200 OK'' []))))
          liveContext (exampleModel (Value 2) Null) [])))
   \<and> \<not> IsUnknown (StatusCode (fst (read (serverEnv (constantServer (Responded (statusResponse 200 ''200 OK'' []))))
          liveContext (exampleModel (Value 2) Null) [])))
   \<and> HasError (fst (snd (read (serverEnv (constantServer (Responded (statusResponse 503 ''503 Service Unavailable'' []))))
          liveContext (exampleModel (Value 2) Null) [])))
   \<and> fst (read (serverEnv (constantServer (Responded (statusResponse 503 ''503 Service Unavailable'' []))))
          liveContext (exampleModel (Value 2) Null) []) = exampleModel (Value 2) Null"
proof -
  let ?E = "serverEnv (constantServer (Responded (statusResponse 200 ''200 OK'' [])))"
  let ?F = "serverEnv (constantServer (Responded (statusResponse 503 ''503 Service Unavailable'' [])))"
  let ?m = "exampleModel (Value 2) Null"
  have h: "IsNull (StatusCode ?m)"
    by (simp add: exampleModel_def)
  have ok: "\<not> HasError (fst (snd (read ?E liveContext ?m [])))"
    by code_simp
  have bad: "HasError (fst (snd (read ?F liveContext ?m [])))"
    by code_simp
  from read_statusCode_iff[of ?E liveContext ?m "[]"] read_statusCode_iff[of ?F liveContext ?m "[]"]
    ok bad h
  show ?thesis
    by blast
qed

text \<open>The equivalence does not hold for every model: \<^verbatim>\<open>Update\<close> calls \<^verbatim>\<open>read\<close> on
  the model of the prior state. With status code 200 on entry and a server that always
  answers 503, the fetch ends with an error diagnostic and the status code is still
  set.\<close>

theorem read_statusCode_iff_counterexample:
  "HasError (fst (snd (read (serverEnv (constantServer (Responded (statusResponse 503 ''503 Service Unavailable'' []))))
          liveContext ((exampleModel (Value 2) Null)\<lparr>StatusCode := Value 200\<rparr>) [])))
   \<and> \<not> IsNull (StatusCode (fst (read (serverEnv (constantServer (Responded (statusResponse 503 ''503 Service Unavailable'' []))))
          liveContext ((exampleModel (Value 2) Null)\<lparr>StatusCode := Value 200\<rparr>) [])))
   \<and> \<not> IsUnknown (StatusCode (fst (read (serverEnv (constantServer (Responded (statusResponse 503 ''503 Service Unavailable'' []))))
          liveContext ((exampleModel (Value 2) Null)\<lparr>StatusCode := Value 200\<rparr>) [])))"
  by code_simp

subsection \<open>The CA certificate\<close>

text \<open>
  C8. When \<^verbatim>\<open>ca_cert_pem\<close> is present and \<^verbatim>\<open>AppendCertsFromPEM\<close> finds no certificate
  in it, the fetch adds the error diagnostic "Error configuring TLS client", leaves the
  model as it is and makes no HTTP attempt.
\<close>

theorem read_caCertificate_unparseable:
  assumes "DefaultTransport E = Some tr"
    and "\<not> IsNull (CaCertificate m)"
    and "\<not> AppendCertsFromPEM E (ValueString (CaCertificate m))"
  shows "read E ctx m d0 =
     (m, AddError d0 ''Error configuring TLS client''
           ''Error tls: Can't add the CA certificate to certificate pool. Only PEM encoded certificates are supported.'', 0)
     \<and> HasError (fst (snd (read E ctx m d0)))"
  using assms by (simp add: read_def read_transport_def Let_def HasError_AddError)

theorem read_caCertificate_unparseable_witness:
  "read (serverEnv (constantServer (Responded (statusResponse 200 ''200 OK'' [])))) liveContext
     ((exampleModel (Value 2) Null)\<lparr>CaCertificate := Value ''not a certificate''\<rparr>) [] =
   ((exampleModel (Value 2) Null)\<lparr>CaCertificate := Value ''not a certificate''\<rparr>,
    [ErrorDiagnostic ''Error configuring TLS client''
       ''Error tls: Can't add the CA certificate to certificate pool. Only PEM encoded certificates are supported.''],
    0)"
proof -
  let ?E = "serverEnv (constantServer (Responded (statusResponse 200 ''200 OK'' [])))"
  let ?m = "(exampleModel (Value 2) Null)\<lparr>CaCertificate := Value ''not a certificate''\<rparr>"
  have a: "DefaultTransport ?E = Some plainTransport" by (simp add: serverEnv_def)
  have b: "\<not> IsNull (CaCertificate ?m)" by (simp add: exampleModel_def)
  have c: "\<not> AppendCertsFromPEM ?E (ValueString (CaCertificate ?m))"
    by (simp add: serverEnv_def exampleModel_def)
  from read_caCertificate_unparseable[OF a b c, of liveContext "[]"] show ?thesis
    by (simp add: AddError_def)
qed

subsection \<open>A body that is not UTF-8\<close>

text \<open>
  C9. When the fetch gets a response whose body is not valid UTF-8 and nothing else
  went wrong, it adds the warning and no error, and the model gets the full result: the
  response body is the string of the very bytes received.
\<close>

theorem read_invalid_utf8:
  assumes "read_transport E m = Inr tr"
    and "read_retryClient E m tr d0 = Inr (c, timeout, d1)"
    and "read_request E m d1 = Inr (req, d2)"
    and "Do E ctx c req = (Inr response, n)"
    and "RespBody response = Inr bytes"
    and "\<not> Valid bytes"
    and "MapValueFrom E (map (\<lambda>(k, v). (k, Join v '', '')) (RespHeader response)) = (st, diags)"
    and "\<not> HasError d2" and "\<not> HasError diags"
  shows "read E ctx m d0 =
           (assignResult m st (string_of_bytes bytes) (EncodeToString bytes) (RespStatusCode response),
            Append (AddWarning d2 ''Response body is not recognized as UTF-8''
               ''Terraform may not properly handle the response_body if the contents are binary.'') diags,
            n)
       \<and> \<not> HasError (fst (snd (read E ctx m d0)))
       \<and> WarningDiagnostic ''Response body is not recognized as UTF-8''
               ''Terraform may not properly handle the response_body if the contents are binary.''
            \<in> set (fst (snd (read E ctx m d0)))
       \<and> ResponseBody (fst (read E ctx m d0)) = Value (string_of_bytes bytes)
       \<and> bytes_of_string (string_of_bytes bytes) = bytes"
proof -
  have u: "read_utf8 d2 bytes = AddWarning d2 ''Response body is not recognized as UTF-8''
               ''Terraform may not properly handle the response_body if the contents are binary.''"
    using assms(6) by (simp add: read_utf8_def)
  have r: "read E ctx m d0 =
           (assignResult m st (string_of_bytes bytes) (EncodeToString bytes) (RespStatusCode response),
            Append (read_utf8 d2 bytes) diags, n)"
    using read_result_ok(1)[OF assms(5,7,8,9), where m = m]
    by (simp add: read_stages[OF assms(1-3)] assms(4))
  have w: "WarningDiagnostic ''Response body is not recognized as UTF-8''
               ''Terraform may not properly handle the response_body if the contents are binary.''
            \<in> set (Append (read_utf8 d2 bytes) diags)"
    using Append_subset[of "read_utf8 d2 bytes" diags] AddWarning_mem unfolding u by blast
  show ?thesis
    using r w read_result_ok(2)[OF assms(5,7,8,9)] u
    by (simp add: bytes_of_string_of_bytes assignResult_def)
qed

theorem read_invalid_utf8_witness:
  "read (serverEnv (constantServer (Responded (statusResponse 200 ''200 OK'' [255]))))
     liveContext (exampleModel (Value 2) Null) [] =
   (assignResult (exampleModel (Value 2) Null) (Value []) (string_of_bytes [255]) ''/w=='' 200,
    [WarningDiagnostic ''Response body is not recognized as UTF-8''
       ''Terraform may not properly handle the response_body if the contents are binary.''],
    1)"
proof -
  let ?r = "statusResponse 200 ''200 OK'' [255]"
  let ?E = "serverEnv (constantServer (Responded ?r))"
  let ?m = "exampleModel (Value 2) Null"
  let ?tr = "\<lparr>Proxy = ProxyFromEnvironment, TLSClientConfig = Some zeroConfig\<rparr>"
  let ?c = "(NewClient (RecoverableError ?E) ?tr)\<lparr>RetryMax := 2,
      CheckRetry := makeCustomRetryPolicy (RecoverableError ?E) []\<rparr>"
  let ?req = "\<lparr>ReqMethod = ''GET'', ReqURL = ''http://example.test/'',
               ReqHost = ''http://example.test/'', ReqHeader = [], ReqBody = None\<rparr>"
  have a: "read_transport ?E ?m = Inr ?tr"
    by (simp add: read_transport_def example_defs)
  have b: "read_retryClient ?E ?m ?tr [] = Inr (?c, 0, [])"
    by (simp add: read_retryClient_def example_defs zeroRetry_def)
  have c: "read_request ?E ?m [] = Inr (?req, [])"
    by (simp add: read_request_def example_defs)
  have d: "Do ?E liveContext ?c ?req = (Inr ?r, 1)"
    by (simp add: Do_def Do_loop.simps example_defs makeCustomRetryPolicy_def
        DefaultRetryPolicy_def Do_result_def)
  have e: "RespBody ?r = Inr [255]" by (simp add: example_defs)
  have f: "\<not> Valid [255]" by simp
  have g: "MapValueFrom ?E (map (\<lambda>(k, v). (k, Join v '', '')) (RespHeader ?r)) = (Value [], [])"
    by (simp add: example_defs)
  have h: "\<not> HasError []" by (simp add: HasError_def)
  from read_invalid_utf8[OF a b c d e f g h h]
  show ?thesis
    by (simp add: AddWarning_def encodeSextet_def encodeStd_def padChar_def
        statusResponse_def)
qed

subsection \<open>A certificate without a key\<close>

text \<open>
  C10. When exactly one of \<^verbatim>\<open>client_cert_pem\<close> and \<^verbatim>\<open>client_key_pem\<close> is present,
  the transport is the one built when neither is given, its TLS configuration keeps the
  certificates of the default transport, and the fetch gives the same diagnostics, the
  same number of attempts and the same result as with neither.
\<close>

theorem read_lone_client_material:
  assumes "IsNull (ClientCert m) \<noteq> IsNull (ClientKey m)"
  shows "read_transport E m = read_transport E (m\<lparr>ClientCert := Null, ClientKey := Null\<rparr>)
       \<and> (DefaultTransport E = Some tr \<and> read_transport E m = Inr tr' \<longrightarrow>
            map_option Certificates (TLSClientConfig tr') =
              Some (case TLSClientConfig tr of None \<Rightarrow> [] | Some cfg \<Rightarrow> Certificates cfg))
       \<and> read E ctx m d0 =
           (case read E ctx (m\<lparr>ClientCert := Null, ClientKey := Null\<rparr>) d0 of
              (m', d, n) \<Rightarrow> (m'\<lparr>ClientCert := ClientCert m, ClientKey := ClientKey m\<rparr>, d, n))"
proof -
  let ?m0 = "m\<lparr>ClientCert := Null, ClientKey := Null\<rparr>"
  have t: "read_transport E m = read_transport E ?m0"
    by (rule read_transport_ClientCert[OF assms])
  have c: "read_retryClient E m tr d = read_retryClient E ?m0 tr d" for tr d
    unfolding read_retryClient_def model_fields_without_client ..
  have q: "read_request E m d = read_request E ?m0 d" for d
    unfolding read_request_def model_fields_without_client ..
  have s: "read_result E m response d =
      (case read_result E ?m0 response d of
         (m', d') \<Rightarrow> (m'\<lparr>ClientCert := ClientCert m, ClientKey := ClientKey m\<rparr>, d'))" for response d
    by (simp add: read_result_def assignResult_def Let_def split: sum.splits prod.splits)
  have i: "?m0\<lparr>ClientCert := ClientCert m, ClientKey := ClientKey m\<rparr> = m" by simp
  have "read E ctx m d0 =
           (case read E ctx ?m0 d0 of
              (m', d, n) \<Rightarrow> (m'\<lparr>ClientCert := ClientCert m, ClientKey := ClientKey m\<rparr>, d, n))"
    unfolding read_def t c q s using i
    by (simp split: sum.splits prod.splits)
  with t read_transport_no_identity[OF assms, of E tr tr'] show ?thesis by simp
qed

theorem read_lone_client_material_witness:
  "read (serverEnv (constantServer (Responded (statusResponse 200 ''200 OK'' []))))
     liveContext ((exampleModel (Value 2) Null)\<lparr>ClientCert := Value ''cert''\<rparr>) [] =
   (assignResult ((exampleModel (Value 2) Null)\<lparr>ClientCert := Value ''cert''\<rparr>)
      (Value []) [] [] 200, [], 1)
   \<and> read_transport (serverEnv (constantServer (Responded (statusResponse 200 ''200 OK'' []))))
       ((exampleModel (Value 2) Null)\<lparr>ClientCert := Value ''cert''\<rparr>) =
     Inr \<lparr>Proxy = ProxyFromEnvironment, TLSClientConfig = Some zeroConfig\<rparr>"
proof -
  let ?E = "serverEnv (constantServer (Responded (statusResponse 200 ''200 OK'' [])))"
  let ?m = "(exampleModel (Value 2) Null)\<lparr>ClientCert := Value ''cert''\<rparr>"
  have h: "IsNull (ClientCert ?m) \<noteq> IsNull (ClientKey ?m)"
    by (simp add: exampleModel_def)
  have m0: "?m\<lparr>ClientCert := Null, ClientKey := Null\<rparr> = exampleModel (Value 2) Null"
    by (simp add: exampleModel_def)
  have r0: "read ?E liveContext (exampleModel (Value 2) Null) [] =
      (assignResult (exampleModel (Value 2) Null) (Value []) [] [] 200, [], 1)"
    by code_simp
  have t0: "read_transport ?E (exampleModel (Value 2) Null) =
      Inr \<lparr>Proxy = ProxyFromEnvironment, TLSClientConfig = Some zeroConfig\<rparr>"
    by (simp add: read_transport_def example_defs)
  from read_lone_client_material[OF h, where E = ?E and ctx = liveContext and ?d0.0 = "[]"]
  show ?thesis
    unfolding m0 r0 t0 by (simp add: assignResult_def exampleModel_def)
qed

end
